theory Spec2Isabelle
  imports Main "HOL-Library.Word"
begin

section \<open>JavaScript values at the wallet's boundary\<close>

text \<open>
  Amounts and fees are JavaScript numbers. The wallet counts in sompi, the smallest
  indivisible unit, so a number is modelled as an unbounded integer or \<open>NaN\<close>; the
  model is exact wherever the engine's doubles are (safe integers). Rounding of doubles
  is not modelled.
\<close>

datatype jsnum = NaN | Num int

fun js_add :: "jsnum \<Rightarrow> jsnum \<Rightarrow> jsnum" where
  "js_add (Num a) (Num b) = Num (a + b)"
| "js_add _ _ = NaN"


text \<open>
  \<open>composeTx\<close> casts its \<open>amount\<close> and \<open>fee\<close> to \<open>any\<close> before \<open>parseInt\<close>, so what
  reaches \<open>parseInt\<close> is a number or a string. \<open>parseInt\<close> first converts its argument
  to a string; a number with a fraction is represented here by that string
  (\<open>12.7\<close> by \<open>''12.7''\<close>).
\<close>

datatype jsval = JNum jsnum | JStr string

subsection \<open>ToString of an integer-valued number\<close>

definition digitChar :: "nat \<Rightarrow> char" where
  "digitChar d = char_of (48 + d)"

fun digits10 :: "nat \<Rightarrow> string" where
  "digits10 n = (if n < 10 then [digitChar n] else digits10 (n div 10) @ [digitChar (n mod 10)])"

declare digits10.simps [simp del]

definition ToString :: "jsnum \<Rightarrow> string" where
  "ToString x =
     (case x of
        NaN \<Rightarrow> ''NaN''
      | Num n \<Rightarrow> if n < 0 then CHR ''-'' # digits10 (nat (- n)) else digits10 (nat n))"

subsection \<open>parseInt with no radix argument\<close>

text \<open>
  The steps of the language's \<open>parseInt(string)\<close>: strip leading white space, read an
  optional sign, take radix 16 after a \<open>0x\<close> or \<open>0X\<close> prefix and radix 10 otherwise,
  read the longest run of digits of that radix, and answer \<open>NaN\<close> when the run is empty.
  Strings are ASCII.
\<close>

definition isWhiteSpace :: "char \<Rightarrow> bool" where
  "isWhiteSpace c = (of_char c \<in> {9, 10, 11, 12, 13, 32 :: nat})"

definition digitValue :: "char \<Rightarrow> nat option" where
  "digitValue c =
     (let k = (of_char c :: nat) in
      if 48 \<le> k \<and> k \<le> 57 then Some (k - 48)
      else if 97 \<le> k \<and> k \<le> 102 then Some (k - 87)
      else if 65 \<le> k \<and> k \<le> 70 then Some (k - 55)
      else None)"

definition isRadixDigit :: "nat \<Rightarrow> char \<Rightarrow> bool" where
  "isRadixDigit R c = (case digitValue c of None \<Rightarrow> False | Some d \<Rightarrow> d < R)"

definition radixDigit :: "char \<Rightarrow> int" where
  "radixDigit c = (case digitValue c of None \<Rightarrow> 0 | Some d \<Rightarrow> int d)"

definition mathInt :: "nat \<Rightarrow> string \<Rightarrow> int" where
  "mathInt R Z = foldl (\<lambda>acc c. acc * int R + radixDigit c) 0 Z"

definition parseInt_str :: "string \<Rightarrow> jsnum" where
  "parseInt_str inputString =
     (let S = dropWhile isWhiteSpace inputString;
          sign = (case S of c # _ \<Rightarrow> if c = CHR ''-'' then - 1 else 1 | [] \<Rightarrow> (1 :: int));
          S1 = (case S of c # r \<Rightarrow> if c = CHR ''+'' \<or> c = CHR ''-'' then r else S | [] \<Rightarrow> S);
          hex = (case S1 of
                   a # b # _ \<Rightarrow> a = CHR ''0'' \<and> (b = CHR ''x'' \<or> b = CHR ''X'')
                 | _ \<Rightarrow> False);
          R = (if hex then 16 else 10);
          S2 = (if hex then drop 2 S1 else S1);
          Z = takeWhile (isRadixDigit R) S2
      in if Z = [] then NaN else Num (sign * mathInt R Z))"

definition parseInt :: "jsval \<Rightarrow> jsnum" where
  "parseInt v = (case v of JNum x \<Rightarrow> parseInt_str (ToString x) | JStr s \<Rightarrow> parseInt_str s)"

text \<open>
  What may follow a decimal numeral without changing what \<open>parseInt\<close> reads: nothing, or
  a character that is neither a decimal digit nor the \<open>x\<close> of a hexadecimal prefix.
\<close>

definition endsNumeral :: "string \<Rightarrow> bool" where
  "endsNumeral suf =
     (case suf of
        [] \<Rightarrow> True
      | c # _ \<Rightarrow> \<not> isRadixDigit 10 c \<and> c \<noteq> CHR ''x'' \<and> c \<noteq> CHR ''X'')"

section \<open>Data of the wallet and of its collaborators\<close>

text \<open>
  The wallet orchestrates collaborators whose code lives outside the wallet class: the
  address manager, the UTXO set, the transaction store, the RPC client and the
  transaction library. Their states are type parameters (\<open>'am\<close>, \<open>'us\<close>, \<open>'ts\<close>,
  \<open>'tx\<close>) and their operations are fields of an environment record, so every theorem
  holds for any implementation of them. Values thrown by a collaborator are carried
  as \<open>Collaborator msg\<close>; each \<open>throw\<close> of the wallet has a constructor of its own.
\<close>

datatype error =
    FeeMaxBelowMinimum int int
  | MaximumNetworkFeeExceeded int int
  | MinimumFeeRequired int
  | MassLimitReached
  | SyncAlreadyRunning
  | TypeError
  | Collaborator string

datatype chain = Receive | Change

type_synonym bytes = "8 word list"

record UnspentOutput =
  txId :: string
  outputIndex :: nat
  address :: string
  satoshis :: int

record Selection =
  sel_utxos :: "UnspentOutput list"
  sel_utxoIds :: "string list"
  sel_mass :: int

record Collection = Selection +
  sel_amount :: int

record Derived =
  d_index :: int
  d_address :: string

record ApiUtxo =
  transactionId :: string
  api_index :: nat
  api_amount :: int

record Input =
  prevTxId :: bytes
  in_outputIndex :: nat
  in_script :: bytes
  sequenceNumber :: nat

record Output =
  out_satoshis :: int
  out_script :: bytes

record Outpoint =
  op_transactionId :: string
  op_index :: nat

record ScriptPublicKey =
  spk_scriptPublicKey :: string
  spk_version :: nat

record TransactionInput =
  previousOutpoint :: Outpoint
  signatureScript :: string
  in_sequence :: nat

record TransactionOutput =
  out_amount :: int
  out_scriptPublicKey :: ScriptPublicKey

record RpcTransaction =
  rpc_version :: int
  rpc_inputs :: "TransactionInput list"
  rpc_outputs :: "TransactionOutput list"
  rpc_lockTime :: int
  rpc_payloadHash :: string
  rpc_subnetworkId :: string
  rpc_fee :: jsnum

record 'n TxSend =
  toAddr :: string
  amount :: 'n
  fee :: "'n option"
  changeAddrOverride :: "string option"
  skipSign :: "bool option"
  privKeysInfo :: "bool option"
  compoundingUTXO :: "bool option"
  compoundingUTXOMaxCount :: "int option"
  networkFeeMax :: "int option"
  calculateNetworkFee :: "bool option"
  inclusiveFee :: "bool option"
  txNote :: "string option"
  skipUTXOInUseMark :: "bool option"

record 'tx ComposeTxInfo =
  tx :: 'tx
  info_id :: string
  rawTx :: string
  utxoIds :: "string list"
  info_amount :: jsnum
  info_fee :: jsnum
  utxos :: "UnspentOutput list"
  info_toAddr :: string
  privKeys :: "string option list"



record TxStoreEntry =
  entry_in :: bool
  entry_ts :: int
  entry_id :: string
  entry_amount :: jsnum
  entry_address :: string
  entry_note :: string
  entry_blueScore :: int
  entry_tx :: RpcTransaction
  myAddress :: bool

datatype event =
    SyncStart
  | SyncFinish
  | Ready int int int nat
  | BalanceUpdate int int int
  | BlueScoreChanged int
  | NewAddress "string option" "string option"
  | StateUpdate "string list" int int
  | DebugInfoUpdate int nat

record 'us UtxoSet =
  confirmed :: "string \<rightharpoonup> UnspentOutput"
  pending :: "string \<rightharpoonup> UnspentOutput"
  used :: "string \<rightharpoonup> UnspentOutput"
  inUse :: "string list"
  utxoStorage :: "string \<rightharpoonup> ApiUtxo list"
  internals :: 'us

record ('am, 'us, 'ts) Wallet =
  network :: string
  defaultFee :: int
  subnetworkId :: string
  addressManager :: 'am
  utxoSet :: "'us UtxoSet"
  txStore :: 'ts
  blueScore :: int
  syncVirtualSelectedParentBlueScoreStarted :: bool
  syncInProggress :: bool
  opt_syncOnce :: bool
  opt_skipSyncBalance :: bool
  opt_addressDiscoveryExtent :: int
  opt_disableAddressDerivation :: bool
  connectSignal :: bool
  syncOnce :: "bool option"
  syncSignal :: "bool option"
  addressManagerInitialized :: bool
  balanceConfirmed :: int
  balancePending :: int
  balanceTotal :: int
  lastBalanceNotification :: "int \<times> int"
  disableBalanceNotifications :: bool
  lastAddressNotification :: "string option \<times> string option"
  debugInfo :: "int \<times> nat"
  loggerLevel :: nat
  emitted :: "event list"

text \<open>
  The operations of the collaborators. \<open>DEFAULT_FEE\<close> is the constant of the
  configuration file. An operation that can throw returns a sum, \<open>Inl\<close> the thrown
  message. The UTXO set and the transaction store hold a reference to the wallet, so
  their mutating operations act on the whole wallet; the address manager acts on its
  own state. Listeners that a collaborator runs when it emits an event are not part
  of an operation's effect here.
\<close>

record ('am, 'us, 'ts, 'tx) env =
  DEFAULT_FEE :: int
  am_next :: "chain \<Rightarrow> 'am \<Rightarrow> string \<times> 'am"
  am_reverse :: "chain \<Rightarrow> 'am \<Rightarrow> 'am"
  am_advance :: "chain \<Rightarrow> int \<Rightarrow> 'am \<Rightarrow> 'am"
  am_getAddresses :: "int \<Rightarrow> chain \<Rightarrow> int \<Rightarrow> 'am \<Rightarrow> Derived list \<times> 'am"
  am_current :: "chain \<Rightarrow> 'am \<Rightarrow> string option"
  am_counter :: "chain \<Rightarrow> 'am \<Rightarrow> int"
  am_all :: "'am \<Rightarrow> string \<Rightarrow> string option"
  am_isOur :: "'am \<Rightarrow> string \<Rightarrow> bool"
  selectUtxos :: "jsnum \<Rightarrow> 'us UtxoSet \<Rightarrow> string + Selection"
  collectUtxos :: "int \<Rightarrow> 'us UtxoSet \<Rightarrow> string + Collection"
  updateUsed :: "UnspentOutput list \<Rightarrow> ('am, 'us, 'ts) Wallet \<Rightarrow> ('am, 'us, 'ts) Wallet"
  utxoSet_add :: "ApiUtxo list \<Rightarrow> string \<Rightarrow> ('am, 'us, 'ts) Wallet \<Rightarrow> ('am, 'us, 'ts) Wallet"
  updateUtxoBalance :: "('am, 'us, 'ts) Wallet \<Rightarrow> ('am, 'us, 'ts) Wallet"
  syncAddressesUtxos :: "string option list \<Rightarrow> ('am, 'us, 'ts) Wallet \<Rightarrow> ('am, 'us, 'ts) Wallet"
  utxoSubscribe :: "('am, 'us, 'ts) Wallet \<Rightarrow> string + ('am, 'us, 'ts) Wallet"
  clearMissing :: "('am, 'us, 'ts) Wallet \<Rightarrow> bool \<times> ('am, 'us, 'ts) Wallet"
  confirmedCount :: "'us UtxoSet \<Rightarrow> nat"
  txStore_add :: "TxStoreEntry \<Rightarrow> 'ts \<Rightarrow> 'ts"
  emitTxs :: "('am, 'us, 'ts) Wallet \<Rightarrow> ('am, 'us, 'ts) Wallet"
  getVirtualSelectedParentBlueScore :: "string + int"
  getUtxosByAddresses :: "string list \<Rightarrow> string + (string \<times> ApiUtxo list) list"
  api_submitTransaction :: "RpcTransaction \<Rightarrow> string + string option"
  newTransaction :: "UnspentOutput list \<Rightarrow> string \<Rightarrow> jsnum \<Rightarrow> jsnum \<Rightarrow> string \<Rightarrow> string + 'tx"
  tx_sign :: "string option list \<Rightarrow> 'tx \<Rightarrow> string + 'tx"
  tx_id :: "'tx \<Rightarrow> string"
  tx_toString :: "'tx \<Rightarrow> string"
  tx_toBuffer_length :: "bool \<Rightarrow> 'tx \<Rightarrow> nat"
  tx_inputs :: "'tx \<Rightarrow> Input list"
  tx_outputs :: "'tx \<Rightarrow> Output list"
  tx_nLockTime :: "'tx \<Rightarrow> int"
  tx_version :: "'tx \<Rightarrow> int"
  tx_getMass :: "'tx \<Rightarrow> int"

section \<open>Small helpers of the wallet class\<close>

definition truthy :: "bool option \<Rightarrow> bool" where
  "truthy b = (b = Some True)"

definition truthyStr :: "string option \<Rightarrow> bool" where
  "truthyStr s = (case s of None \<Rightarrow> False | Some a \<Rightarrow> a \<noteq> [])"

definition COMPOUND_UTXO_MAX_COUNT :: int where
  "COMPOUND_UTXO_MAX_COUNT = 500"


definition emit :: "event \<Rightarrow> ('am, 'us, 'ts) Wallet \<Rightarrow> ('am, 'us, 'ts) Wallet" where
  "emit e w = w\<lparr>emitted := emitted w @ [e]\<rparr>"

definition changeAddress_next ::
  "('am, 'us, 'ts, 'tx) env \<Rightarrow> ('am, 'us, 'ts) Wallet \<Rightarrow> string \<times> ('am, 'us, 'ts) Wallet" where
  "changeAddress_next env w =
     (case am_next env Change (addressManager w) of
        (a, am') \<Rightarrow> (a, w\<lparr>addressManager := am'\<rparr>))"

definition changeAddress_reverse ::
  "('am, 'us, 'ts, 'tx) env \<Rightarrow> ('am, 'us, 'ts) Wallet \<Rightarrow> ('am, 'us, 'ts) Wallet" where
  "changeAddress_reverse env w = w\<lparr>addressManager := am_reverse env Change (addressManager w)\<rparr>"

text \<open>\<open>a?.satoshis || b?.satoshis || c?.satoshis || 0\<close>: the first amount that is defined and not zero.\<close>

definition satoshisOr :: "UnspentOutput option \<Rightarrow> int \<Rightarrow> int" where
  "satoshisOr u rest = (case u of None \<Rightarrow> rest | Some x \<Rightarrow> if satoshis x \<noteq> 0 then satoshis x else rest)"

definition updateDebugInfo :: "('am, 'us, 'ts) Wallet \<Rightarrow> ('am, 'us, 'ts) Wallet" where
  "updateDebugInfo w =
     (let us = utxoSet w;
          sats = foldl (\<lambda>acc utxoId.
                   acc + satoshisOr (confirmed us utxoId)
                           (satoshisOr (pending us utxoId) (satoshisOr (used us utxoId) 0)))
                 0 (inUse us);
          info = (sats, length (inUse us))
      in emit (DebugInfoUpdate (fst info) (snd info)) (w\<lparr>debugInfo := info\<rparr>))"


section \<open>composeTx\<close>

text \<open>
  The destructured parameters take their defaults when undefined. \<open>amount\<close> and \<open>fee\<close>
  go through \<open>parseInt\<close>; compounding collects UTXOs and overwrites the amount, otherwise
  selection targets the sum. The private keys are gathered by a \<open>reduce\<close> that prepends.
  A truthy \<open>changeAddrOverride\<close> short-circuits \<open>next()\<close>. Assembly and signing sit in the
  \<open>try\<close> block, whose \<open>catch\<close> reverses the change address unless it was overridden.
\<close>

definition feeArg :: "('am, 'us, 'ts, 'tx) env \<Rightarrow> jsval TxSend \<Rightarrow> jsval" where
  "feeArg env p = (case fee p of None \<Rightarrow> JNum (Num (DEFAULT_FEE env)) | Some f \<Rightarrow> f)"

text \<open>
  The \<open>if(compoundingUTXO)\<close> statement: the selected UTXOs, their ids and the amount
  that goes on (the mass is read and never used).
\<close>

definition composeSelect ::
  "('am, 'us, 'ts, 'tx) env \<Rightarrow> jsval TxSend \<Rightarrow> ('am, 'us, 'ts) Wallet
     \<Rightarrow> string + (UnspentOutput list \<times> string list \<times> jsnum)" where
  "composeSelect env p w =
     (let amount0 = parseInt (amount p);
          fee1 = parseInt (feeArg env p);
          maxCount = (case compoundingUTXOMaxCount p of None \<Rightarrow> COMPOUND_UTXO_MAX_COUNT | Some m \<Rightarrow> m)
      in if truthy (compoundingUTXO p)
         then (case collectUtxos env maxCount (utxoSet w) of
                 Inl e \<Rightarrow> Inl e
               | Inr c \<Rightarrow> Inr (sel_utxos c, sel_utxoIds c, Num (sel_amount c)))
         else (case selectUtxos env (js_add amount0 fee1) (utxoSet w) of
                 Inl e \<Rightarrow> Inl e
               | Inr s \<Rightarrow> Inr (sel_utxos s, sel_utxoIds s, amount0)))"

text \<open>The body of the \<open>try\<close> block up to the signed or unsigned transaction.\<close>

definition composeAssemble ::
  "('am, 'us, 'ts, 'tx) env \<Rightarrow> jsval TxSend \<Rightarrow> UnspentOutput list \<Rightarrow> jsnum
     \<Rightarrow> string option list \<Rightarrow> string \<Rightarrow> string + 'tx" where
  "composeAssemble env p utxos1 amount1 privKeys1 changeAddr =
     (case newTransaction env utxos1 (toAddr p) amount1 (parseInt (feeArg env p)) changeAddr of
        Inl e \<Rightarrow> Inl e
      | Inr t \<Rightarrow>
          if (case skipSign p of None \<Rightarrow> False | Some b \<Rightarrow> b) then Inr t
          else tx_sign env privKeys1 t)"

definition composePrivKeys ::
  "('am, 'us, 'ts, 'tx) env \<Rightarrow> ('am, 'us, 'ts) Wallet \<Rightarrow> UnspentOutput list \<Rightarrow> string option list" where
  "composePrivKeys env w utxos1 =
     foldl (\<lambda>prev cur. am_all env (addressManager w) (address cur) # prev) [] utxos1"

definition composeTx ::
  "('am, 'us, 'ts, 'tx) env \<Rightarrow> jsval TxSend \<Rightarrow> ('am, 'us, 'ts) Wallet
     \<Rightarrow> (error + 'tx ComposeTxInfo) \<times> ('am, 'us, 'ts) Wallet" where
  "composeTx env p w =
     (case composeSelect env p w of
        Inl e \<Rightarrow> (Inl (Collaborator e), w)
      | Inr (utxos1, utxoIds1, amount1) \<Rightarrow>
          (let privKeys1 = composePrivKeys env w utxos1;
               (changeAddr, w1) =
                 (case changeAddrOverride p of
                    None \<Rightarrow> changeAddress_next env w
                  | Some a \<Rightarrow> if a \<noteq> [] then (a, w) else changeAddress_next env w)
           in case composeAssemble env p utxos1 amount1 privKeys1 changeAddr of
                Inr t \<Rightarrow>
                  (Inr \<lparr>tx = t, info_id = tx_id env t, rawTx = tx_toString env t,
                        utxoIds = utxoIds1, info_amount = amount1,
                        info_fee = parseInt (feeArg env p),
                        utxos = utxos1, info_toAddr = toAddr p,
                        privKeys = (if (case privKeysInfo p of None \<Rightarrow> False | Some b \<Rightarrow> b)
                                    then privKeys1 else [])\<rparr>, w1)
              | Inl e \<Rightarrow>
                  (Inl (Collaborator e),
                   if truthyStr (changeAddrOverride p) then w1 else changeAddress_reverse env w1)))"

section \<open>estimateTransaction\<close>

text \<open>
  The parameters arrive typed as numbers; \<open>asAny\<close> is the cast that hands them to
  \<open>composeTx\<close>. The wallet is taken as synced: \<open>waitOrSync\<close> has resolved.
\<close>

definition asAny :: "jsnum TxSend \<Rightarrow> jsval TxSend" where
  "asAny p =
     \<lparr>toAddr = toAddr p, amount = JNum (amount p), fee = map_option JNum (fee p),
      changeAddrOverride = changeAddrOverride p, skipSign = skipSign p,
      privKeysInfo = privKeysInfo p, compoundingUTXO = compoundingUTXO p,
      compoundingUTXOMaxCount = compoundingUTXOMaxCount p, networkFeeMax = networkFeeMax p,
      calculateNetworkFee = calculateNetworkFee p, inclusiveFee = inclusiveFee p,
      txNote = txNote p, skipUTXOInUseMark = skipUTXOInUseMark p\<rparr>"

text \<open>\<open>if(!txParamsArg.fee) txParamsArg.fee = 0\<close>: undefined, \<open>NaN\<close> and \<open>0\<close> are falsy.\<close>

definition feeOrZero :: "jsnum option \<Rightarrow> int" where
  "feeOrZero f = (case f of Some (Num n) \<Rightarrow> n | _ \<Rightarrow> 0)"




text \<open>
  The argument after \<open>if(!txParamsArg.fee) txParamsArg.fee = 0\<close>, and the copy of it
  with the defaults: \<open>skipSign\<close> defaulting to \<open>true\<close> and \<open>privKeysInfo\<close> to
  \<open>false\<close>.
\<close>

definition estimateArg :: "jsnum TxSend \<Rightarrow> jsnum TxSend" where
  "estimateArg p = p\<lparr>fee := Some (Num (feeOrZero (fee p)))\<rparr>"

definition estimateSkipSign :: "jsnum TxSend \<Rightarrow> bool" where
  "estimateSkipSign p = (case skipSign p of None \<Rightarrow> True | Some b \<Rightarrow> b)"

definition estimateParams :: "jsnum TxSend \<Rightarrow> jsnum TxSend" where
  "estimateParams p =
     p\<lparr>fee := Some (Num (feeOrZero (fee p))),
       skipSign := Some (estimateSkipSign p),
       privKeysInfo := Some (case privKeysInfo p of None \<Rightarrow> False | Some b \<Rightarrow> b)\<rparr>"


section \<open>buildTransaction and submitTransaction\<close>









section \<open>Address discovery\<close>

definition emitBalance :: "('am, 'us, 'ts) Wallet \<Rightarrow> ('am, 'us, 'ts) Wallet" where
  "emitBalance w =
     (let available = balanceConfirmed w; pend = balancePending w;
          total = balanceConfirmed w + balancePending w
      in if (available, pend) = lastBalanceNotification w then w
         else emit (BalanceUpdate available pend total)
                (w\<lparr>lastBalanceNotification := (available, pend)\<rparr>))"

definition receiveAddress :: "('am, 'us, 'ts, 'tx) env \<Rightarrow> ('am, 'us, 'ts) Wallet \<Rightarrow> string option" where
  "receiveAddress env w = am_current env Receive (addressManager w)"

definition changeAddress :: "('am, 'us, 'ts, 'tx) env \<Rightarrow> ('am, 'us, 'ts) Wallet \<Rightarrow> string option" where
  "changeAddress env w = am_current env Change (addressManager w)"

definition receiveAddress_next ::
  "('am, 'us, 'ts, 'tx) env \<Rightarrow> ('am, 'us, 'ts) Wallet \<Rightarrow> ('am, 'us, 'ts) Wallet" where
  "receiveAddress_next env w = w\<lparr>addressManager := snd (am_next env Receive (addressManager w))\<rparr>"

definition emitAddress ::
  "('am, 'us, 'ts, 'tx) env \<Rightarrow> ('am, 'us, 'ts) Wallet \<Rightarrow> ('am, 'us, 'ts) Wallet" where
  "emitAddress env w =
     (let receive = receiveAddress env w; change = changeAddress env w
      in if (receive, change) = lastAddressNotification w then w
         else emit (NewAddress receive change) (w\<lparr>lastAddressNotification := (receive, change)\<rparr>))"

text \<open>A property key: \<open>undefined\<close> used as a key is the string \<open>undefined\<close>.\<close>

definition propertyKey :: "string option \<Rightarrow> string" where
  "propertyKey k = (case k of None \<Rightarrow> ''undefined'' | Some a \<Rightarrow> a)"

text \<open>
  The debug map of \<open>findUtxos\<close>, from transaction id to the UTXOs seen for it and the
  address of the first of them; a \<open>Map\<close> keeps insertion order.
\<close>

type_synonym txID2Info = "(string \<times> (ApiUtxo list \<times> string)) list"

fun txID2Info_push :: "string \<Rightarrow> ApiUtxo \<Rightarrow> txID2Info \<Rightarrow> txID2Info" where
  "txID2Info_push a t [] = [(transactionId t, ([t], a))]"
| "txID2Info_push a t ((k, (us, a0)) # m) =
     (if k = transactionId t then (k, (us @ [t], a0)) # m
      else (k, (us, a0)) # txID2Info_push a t m)"

definition findUtxos_step ::
  "('am, 'us, 'ts, 'tx) env \<Rightarrow> string list \<times> ('am, 'us, 'ts) Wallet \<Rightarrow> string \<times> ApiUtxo list
     \<Rightarrow> string list \<times> ('am, 'us, 'ts) Wallet" where
  "findUtxos_step env acc entry =
     (case (acc, entry) of
        ((found, w), (a, us)) \<Rightarrow>
          if length us \<noteq> 0
          then (let w1 = w\<lparr>disableBalanceNotifications := True\<rparr>;
                    w2 = w1\<lparr>utxoSet := (utxoSet w1)\<lparr>utxoStorage := (utxoStorage (utxoSet w1))(a \<mapsto> us)\<rparr>\<rparr>;
                    w3 = utxoSet_add env us a w2;
                    w4 = w3\<lparr>disableBalanceNotifications := False\<rparr>
                in (found @ [a], emitBalance w4))
          else (found, w))"

definition findUtxos ::
  "('am, 'us, 'ts, 'tx) env \<Rightarrow> string list \<Rightarrow> bool \<Rightarrow> ('am, 'us, 'ts) Wallet
     \<Rightarrow> (error + (string list \<times> txID2Info)) \<times> ('am, 'us, 'ts) Wallet" where
  "findUtxos env addresses debug w =
     (case getUtxosByAddresses env addresses of
        Inl e \<Rightarrow> (Inl (Collaborator e), w)
      | Inr utxosMap \<Rightarrow>
          (let info = (if debug
                       then foldl (\<lambda>m (a, us). foldl (\<lambda>m' t. txID2Info_push a t m') m us) [] utxosMap
                       else []);
               (addressesWithUTXOs, w1) = foldl (findUtxos_step env) ([], w) utxosMap;
               isActivityOnReceiveAddr =
                 (utxoStorage (utxoSet w1) (propertyKey (receiveAddress env w1)) \<noteq> None);
               w2 = (if isActivityOnReceiveAddr then receiveAddress_next env w1 else w1)
           in (Inr (addressesWithUTXOs, info), w2)))"

text \<open>
  The variables that \<open>doDiscovery\<close> closes over: the list of scanned addresses and the
  debug map of the first scan.
\<close>

record Closure =
  addressList :: "string list"
  debugInfo_c :: "txID2Info option"

text \<open>
  One scan of \<open>n\<close> addresses from \<open>offset\<close>. The log line reads the first and the last
  derived address, a \<open>TypeError\<close> on an empty window. With no active address the scan
  answers \<open>offset - (threshold - n) - 1\<close>; otherwise the next window has as many
  addresses as the highest active index plus one and starts at \<open>offset + n\<close>. The
  recursion goes on as long as every window has an active address, so not returning
  is the value \<open>None\<close>.
\<close>

partial_function (option) doDiscovery ::
  "('am, 'us, 'ts, 'tx) env \<Rightarrow> int \<Rightarrow> bool \<Rightarrow> int \<Rightarrow> chain \<Rightarrow> int
     \<Rightarrow> Closure \<times> ('am, 'us, 'ts) Wallet
     \<Rightarrow> ((error + int) \<times> Closure \<times> ('am, 'us, 'ts) Wallet) option" where
  "doDiscovery env threshold debug n deriveType offset cw =
     (case cw of
        (c, w) \<Rightarrow>
          (case am_getAddresses env n deriveType offset (addressManager w) of
             (derivedAddresses, am1) \<Rightarrow>
               (let w1 = w\<lparr>addressManager := am1\<rparr>;
                    addresses = map d_address derivedAddresses;
                    c1 = c\<lparr>addressList := addressList c @ addresses\<rparr>
                in if derivedAddresses = [] then Some (Inl TypeError, c1, w1)
                   else (case findUtxos env addresses debug w1 of
                           (Inl e, w2) \<Rightarrow> Some (Inl e, c1, w2)
                         | (Inr (addressesWithUTXOs, info), w2) \<Rightarrow>
                             (let c2 = (case debugInfo_c c1 of
                                          None \<Rightarrow> c1\<lparr>debugInfo_c := Some info\<rparr>
                                        | Some _ \<Rightarrow> c1)
                              in if length addressesWithUTXOs = 0
                                 then Some (Inr (offset - (threshold - n) - 1), c2, w2)
                                 else (let nAddressesLeft =
                                             foldl (\<lambda>prev cur. max prev (d_index cur)) 0
                                               (filter (\<lambda>obj. d_address obj \<in> set addressesWithUTXOs)
                                                  derivedAddresses) + 1
                                       in doDiscovery env threshold debug nAddressesLeft deriveType
                                            (offset + n) (c2, w2)))))))"

definition addressDiscovery ::
  "('am, 'us, 'ts, 'tx) env \<Rightarrow> int \<Rightarrow> bool \<Rightarrow> ('am, 'us, 'ts) Wallet
     \<Rightarrow> ((error + txID2Info option) \<times> ('am, 'us, 'ts) Wallet) option" where
  "addressDiscovery env threshold debug w =
     (case doDiscovery env threshold debug threshold Receive 0
             (\<lparr>addressList = [], debugInfo_c = None\<rparr>, w) of
        None \<Rightarrow> None
      | Some (Inl e, c1, w1) \<Rightarrow> Some (Inl e, w1)
      | Some (Inr highestReceiveIndex, c1, w1) \<Rightarrow>
          (case doDiscovery env threshold debug threshold Change 0 (c1, w1) of
             None \<Rightarrow> None
           | Some (Inl e, c2, w2) \<Rightarrow> Some (Inl e, w2)
           | Some (Inr highestChangeIndex, c2, w2) \<Rightarrow>
               (let w3 = w2\<lparr>addressManager :=
                              am_advance env Receive (highestReceiveIndex + 1) (addressManager w2)\<rparr>;
                    w4 = w3\<lparr>addressManager :=
                              am_advance env Change (highestChangeIndex + 1) (addressManager w3)\<rparr>
                in if syncOnce w4 \<noteq> Some True \<and> \<not> syncInProggress w4
                   then (case utxoSubscribe env w4 of
                           Inl e \<Rightarrow> Some (Inl (Collaborator e), w4)
                         | Inr w5 \<Rightarrow> Some (Inr (debugInfo_c c2), w5))
                   else Some (Inr (debugInfo_c c2), w4))))"

section \<open>sync\<close>

definition initAddressManager ::
  "('am, 'us, 'ts, 'tx) env \<Rightarrow> ('am, 'us, 'ts) Wallet \<Rightarrow> ('am, 'us, 'ts) Wallet" where
  "initAddressManager env w =
     (if addressManagerInitialized w then w
      else (let w1 = w\<lparr>addressManagerInitialized := True\<rparr>
            in if \<not> truthyStr (receiveAddress env w1) then receiveAddress_next env w1 else w1))"

text \<open>
  The subscription to blue-score changes registers a callback that runs on later
  notifications; it changes nothing during the call.
\<close>

definition initBlueScoreSync ::
  "('am, 'us, 'ts, 'tx) env \<Rightarrow> bool \<Rightarrow> ('am, 'us, 'ts) Wallet
     \<Rightarrow> (error + unit) \<times> ('am, 'us, 'ts) Wallet" where
  "initBlueScoreSync env once w =
     (if syncVirtualSelectedParentBlueScoreStarted w then (Inr (), w)
      else (let w1 = w\<lparr>syncVirtualSelectedParentBlueScoreStarted := True\<rparr>
            in case getVirtualSelectedParentBlueScore env of
                 Inl e \<Rightarrow> (Inl (Collaborator e), w1)
               | Inr score \<Rightarrow>
                   (let w2 = w1\<lparr>blueScore := score\<rparr>;
                        w3 = emit (BlueScoreChanged score) w2;
                        w4 = updateUtxoBalance env w3
                    in if once
                       then (Inr (), w4\<lparr>syncVirtualSelectedParentBlueScoreStarted := False\<rparr>)
                       else (Inr (), w4))))"

text \<open>
  \<open>sync\<close> creates a fresh sync signal and awaits the connect signal: while that one is
  unresolved the call does not go on, which is the value \<open>None\<close>. The rejections of
  \<open>initBlueScoreSync\<close> and \<open>addressDiscovery\<close> are caught and logged; what they changed
  before stays.
\<close>

definition sync ::
  "('am, 'us, 'ts, 'tx) env \<Rightarrow> bool option \<Rightarrow> ('am, 'us, 'ts) Wallet
     \<Rightarrow> ((error + unit) \<times> ('am, 'us, 'ts) Wallet) option" where
  "sync env syncOnceArg w =
     (let w0 = w\<lparr>syncSignal := Some False\<rparr>
      in if \<not> connectSignal w0 then None
         else (let syncOnce1 = (case syncOnceArg of None \<Rightarrow> opt_syncOnce w0 | Some b \<Rightarrow> b);
                   w1 = emit SyncStart (w0\<lparr>syncInProggress := True\<rparr>)
               in if syncOnce w1 = Some False \<and> syncOnce1
                  then Some (Inl SyncAlreadyRunning, w1)
                  else (let w2 = w1\<lparr>syncOnce := Some syncOnce1\<rparr>;
                            w3 = initAddressManager env w2;
                            w4 = snd (initBlueScoreSync env syncOnce1 w3);
                            discovered =
                              (if opt_disableAddressDerivation w4
                               then Some (syncAddressesUtxos env [receiveAddress env w4] w4)
                               else (case addressDiscovery env (opt_addressDiscoveryExtent w4) False w4 of
                                       None \<Rightarrow> None
                                     | Some (r, w5) \<Rightarrow> Some w5))
                        in case discovered of
                             None \<Rightarrow> None
                           | Some w5 \<Rightarrow>
                               (let w6 = w5\<lparr>syncInProggress := False\<rparr>
                                in case (if \<not> syncOnce1 then utxoSubscribe env w6 else Inr w6) of
                                     Inl e \<Rightarrow> Some (Inl (Collaborator e), w6)
                                   | Inr w7 \<Rightarrow>
                                       (let w8 = emit SyncFinish w7;
                                            w9 = emit (Ready (balanceConfirmed w8) (balancePending w8)
                                                         (balanceConfirmed w8 + balancePending w8)
                                                         (confirmedCount env (utxoSet w8))) w8;
                                            w10 = emitBalance w9;
                                            w11 = emitAddress env w10;
                                            w12 = emitTxs env w11;
                                            w13 = w12\<lparr>syncSignal := Some True\<rparr>;
                                            (kept, w14) = clearMissing env w13;
                                            w15 = (if \<not> kept then updateDebugInfo w14 else w14)
                                        in Some (Inr (), w15))))))"

section \<open>createUID\<close>

text \<open>
  The HD key, its derivation and the address encoding belong to the key library, the
  hash to a helper module; they are parameters. \<open>split(":")[1]\<close> is the second piece of
  the address string, undefined when the string has no colon.
\<close>

record ('hd, 'key) keylib =
  deriveChild :: "'hd \<Rightarrow> string \<Rightarrow> 'key"
  toAddress :: "'key \<Rightarrow> string \<Rightarrow> string"
  createHash :: "string option \<Rightarrow> string"

fun splitOn :: "char \<Rightarrow> string \<Rightarrow> string list" where
  "splitOn sep [] = [[]]"
| "splitOn sep (c # cs) =
     (if c = sep then [] # splitOn sep cs
      else (case splitOn sep cs of
              [] \<Rightarrow> [[c]]
            | piece # pieces \<Rightarrow> (c # piece) # pieces))"

definition at :: "'a list \<Rightarrow> nat \<Rightarrow> 'a option" where
  "at xs i = (if i < length xs then Some (xs ! i) else None)"

definition uidPath :: string where
  "uidPath = ''m/44'/972/0'/1'/0'' @ [CHR 0x27]"

definition createUID :: "('hd, 'key) keylib \<Rightarrow> 'hd \<Rightarrow> string \<Rightarrow> string" where
  "createUID lib HDWallet net =
     (let privateKey = deriveChild lib HDWallet uidPath;
          addr = at (splitOn CHR '':'' (toAddress lib privateKey net)) 1
      in createHash lib addr)"

text \<open>
  The derivation of the uid as the specification words it, with the path
  \<open>m/44'/972'/0'/1'/0'\<close>; it is compared with \<open>createUID\<close> below.
\<close>

definition uidPath_spec :: string where
  "uidPath_spec = ''m/44'/972'/0'/1'/0'' @ [CHR 0x27]"

definition createUID_spec :: "('hd, 'key) keylib \<Rightarrow> 'hd \<Rightarrow> string \<Rightarrow> string" where
  "createUID_spec lib HDWallet net =
     (let privateKey = deriveChild lib HDWallet uidPath_spec;
          addr = at (splitOn CHR '':'' (toAddress lib privateKey net)) 1
      in createHash lib addr)"

section \<open>A simulated set of collaborators\<close>

text \<open>
  A small executable implementation of the collaborators, to run the wallet on
  concrete inputs: an address manager that counts indices, a UTXO set that selects
  from a list in order, a transaction library with sizes linear in inputs and outputs,
  and a node that knows UTXOs only for receive index 3.
\<close>

record SimTx =
  sim_inputs :: "Input list"
  sim_outputs :: "Output list"
  sim_signed :: bool

definition simAddress :: "chain \<Rightarrow> int \<Rightarrow> string" where
  "simAddress c i = (case c of Receive \<Rightarrow> ''kaspatest:r'' | Change \<Rightarrow> ''kaspatest:c'') @ ToString (Num i)"

fun simTake :: "int \<Rightarrow> UnspentOutput list \<Rightarrow> UnspentOutput list option" where
  "simTake t [] = (if t \<le> 0 then Some [] else None)"
| "simTake t (u # us) = (if t \<le> 0 then Some [] else map_option ((#) u) (simTake (t - satoshis u) us))"

definition simUtxoId :: "UnspentOutput \<Rightarrow> string" where
  "simUtxoId u = txId u @ ToString (Num (int (outputIndex u)))"

definition simSelect :: "jsnum \<Rightarrow> UnspentOutput list UtxoSet \<Rightarrow> string + Selection" where
  "simSelect target us =
     (case target of
        NaN \<Rightarrow> Inl ''invalid amount''
      | Num t \<Rightarrow>
          (case simTake t (internals us) of
             None \<Rightarrow> Inl ''insufficient funds''
           | Some xs \<Rightarrow> Inr \<lparr>sel_utxos = xs, sel_utxoIds = map simUtxoId xs,
                             sel_mass = 1000 * int (length xs)\<rparr>))"

definition simCollect :: "int \<Rightarrow> UnspentOutput list UtxoSet \<Rightarrow> string + Collection" where
  "simCollect maxCount us =
     (let xs = take (nat maxCount) (internals us)
      in Inr \<lparr>sel_utxos = xs, sel_utxoIds = map simUtxoId xs, sel_mass = 1000 * int (length xs),
              sel_amount = sum_list (map satoshis xs)\<rparr>)"

definition simNewTransaction ::
  "UnspentOutput list \<Rightarrow> string \<Rightarrow> jsnum \<Rightarrow> jsnum \<Rightarrow> string \<Rightarrow> string + SimTx" where
  "simNewTransaction us to a f changeAddr =
     (case (a, f) of
        (Num x, Num y) \<Rightarrow>
          (let change = sum_list (map satoshis us) - x - y
           in if x < 0 \<or> change < 0 then Inl ''invalid amounts''
              else Inr \<lparr>sim_inputs = map (\<lambda>u. \<lparr>prevTxId = [0xAB], in_outputIndex = outputIndex u,
                                               in_script = [], sequenceNumber = 0\<rparr>) us,
                        sim_outputs = \<lparr>out_satoshis = x, out_script = [0x20]\<rparr> #
                          (if change = 0 then [] else [\<lparr>out_satoshis = change, out_script = [0x21]\<rparr>]),
                        sim_signed = False\<rparr>)
      | _ \<Rightarrow> Inl ''invalid amounts'')"

definition simSign :: "string option list \<Rightarrow> SimTx \<Rightarrow> string + SimTx" where
  "simSign keys t = (if None \<in> set keys then Inl ''missing key'' else Inr (t\<lparr>sim_signed := True\<rparr>))"

definition simNodeEntries :: "string list \<Rightarrow> (string \<times> ApiUtxo list) list" where
  "simNodeEntries addrs =
     map (\<lambda>a. (a, if a = simAddress Receive 3
                  then [\<lparr>transactionId = ''t3'', api_index = 0, api_amount = 5000\<rparr>]
                  else [])) addrs"

definition simNode :: "string list \<Rightarrow> string + (string \<times> ApiUtxo list) list" where
  "simNode addrs = Inr (simNodeEntries addrs)"

definition simGetAddresses :: "int \<Rightarrow> chain \<Rightarrow> int \<Rightarrow> int \<times> int \<Rightarrow> Derived list \<times> (int \<times> int)" where
  "simGetAddresses n c offset am =
     (map (\<lambda>i. \<lparr>d_index = i, d_address = simAddress c i\<rparr>) [offset..offset + n - 1], am)"

definition simEnv :: "(int \<times> int, UnspentOutput list, TxStoreEntry list, SimTx) env" where
  "simEnv =
     \<lparr>DEFAULT_FEE = 0,
      am_next = (\<lambda>c am. case c of
                   Receive \<Rightarrow> (simAddress Receive (fst am), (fst am + 1, snd am))
                 | Change \<Rightarrow> (simAddress Change (snd am), (fst am, snd am + 1))),
      am_reverse = (\<lambda>c am. case c of
                      Receive \<Rightarrow> (fst am - 1, snd am)
                    | Change \<Rightarrow> (fst am, snd am - 1)),
      am_advance = (\<lambda>c n am. case c of Receive \<Rightarrow> (n, snd am) | Change \<Rightarrow> (fst am, n)),
      am_getAddresses = simGetAddresses,
      am_current = (\<lambda>c am. let k = (case c of Receive \<Rightarrow> fst am | Change \<Rightarrow> snd am)
                           in if k \<le> 0 then None else Some (simAddress c (k - 1))),
      am_counter = (\<lambda>c am. case c of Receive \<Rightarrow> fst am | Change \<Rightarrow> snd am),
      am_all = (\<lambda>am a. Some (''key of '' @ a)),
      am_isOur = (\<lambda>am a. False),
      selectUtxos = simSelect,
      collectUtxos = simCollect,
      updateUsed = (\<lambda>us w. w),
      utxoSet_add = (\<lambda>us a w. w\<lparr>balanceConfirmed := balanceConfirmed w + sum_list (map api_amount us)\<rparr>),
      updateUtxoBalance = (\<lambda>w. w),
      syncAddressesUtxos = (\<lambda>as w. w),
      utxoSubscribe = Inr,
      clearMissing = (\<lambda>w. (False, w)),
      confirmedCount = (\<lambda>us. length (internals us)),
      txStore_add = (\<lambda>e ts. ts @ [e]),
      emitTxs = (\<lambda>w. w),
      getVirtualSelectedParentBlueScore = Inr 1000,
      getUtxosByAddresses = simNode,
      api_submitTransaction = (\<lambda>r. Inr (Some ''txid-1'')),
      newTransaction = simNewTransaction,
      tx_sign = simSign,
      tx_id = (\<lambda>t. ''id''),
      tx_toString = (\<lambda>t. ''raw''),
      tx_toBuffer_length = (\<lambda>skip t. 10 + 40 * length (sim_inputs t) + 30 * length (sim_outputs t)),
      tx_inputs = sim_inputs,
      tx_outputs = sim_outputs,
      tx_nLockTime = (\<lambda>t. 0),
      tx_version = (\<lambda>t. 0),
      tx_getMass = (\<lambda>t. 100 + 1000 * int (length (sim_inputs t)))\<rparr>"

definition simUtxos :: "UnspentOutput list" where
  "simUtxos =
     [\<lparr>txId = ''A'', outputIndex = 0, address = ''kaspatest:r0'', satoshis = 10000\<rparr>,
      \<lparr>txId = ''B'', outputIndex = 0, address = ''kaspatest:r1'', satoshis = 5000\<rparr>]"

definition simWallet :: "(int \<times> int, UnspentOutput list, TxStoreEntry list) Wallet" where
  "simWallet =
     \<lparr>network = ''kaspatest'', defaultFee = 1,
      subnetworkId = replicate 40 CHR ''0'',
      addressManager = (0, 0),
      utxoSet = \<lparr>confirmed = Map.empty, pending = Map.empty, used = Map.empty, inUse = [],
                 utxoStorage = Map.empty, internals = simUtxos\<rparr>,
      txStore = [], blueScore = - 1,
      syncVirtualSelectedParentBlueScoreStarted = False, syncInProggress = False,
      opt_syncOnce = False, opt_skipSyncBalance = False, opt_addressDiscoveryExtent = 64,
      opt_disableAddressDerivation = False,
      connectSignal = True, syncOnce = None, syncSignal = None,
      addressManagerInitialized = False,
      balanceConfirmed = 0, balancePending = 0, balanceTotal = 0,
      lastBalanceNotification = (0, 0), disableBalanceNotifications = False,
      lastAddressNotification = (None, None), debugInfo = (0, 0), loggerLevel = 2,
      emitted = []\<rparr>"

definition simSend :: "jsnum TxSend" where
  "simSend =
     \<lparr>toAddr = ''kaspatest:xxx'', amount = Num 7000, fee = Some (Num 500),
      changeAddrOverride = None, skipSign = None, privKeysInfo = None,
      compoundingUTXO = None, compoundingUTXOMaxCount = None, networkFeeMax = None,
      calculateNetworkFee = Some True, inclusiveFee = None, txNote = None,
      skipUTXOInUseMark = None\<rparr>"

definition simKeylib :: "(string, string) keylib" where
  "simKeylib =
     \<lparr>deriveChild = (\<lambda>root path. root @ path),
      toAddress = (\<lambda>key net. net @ '':'' @ key),
      createHash = propertyKey\<rparr>"

text \<open>Parameters for the runs below.\<close>

definition simSendOverride :: "jsval TxSend" where
  "simSendOverride = asAny (simSend\<lparr>changeAddrOverride := Some ''kaspatest:own''\<rparr>)"

definition simSendNegative :: "jsval TxSend" where
  "simSendNegative = asAny (simSend\<lparr>amount := Num (- 5)\<rparr>)"








definition simWalletContinuous :: "(int \<times> int, UnspentOutput list, TxStoreEntry list) Wallet" where
  "simWalletContinuous = simWallet\<lparr>syncOnce := Some False\<rparr>"


section \<open>Properties of parseInt\<close>

lemma digitValue_digitChar: "d < 10 \<Longrightarrow> digitValue (digitChar d) = Some d"
  by (simp add: digitValue_def digitChar_def)

lemma isRadixDigit_digitChar: "d < 10 \<Longrightarrow> isRadixDigit 10 (digitChar d)"
  by (simp add: isRadixDigit_def digitValue_digitChar)

lemma radixDigit_digitChar: "d < 10 \<Longrightarrow> radixDigit (digitChar d) = int d"
  by (simp add: radixDigit_def digitValue_digitChar)

lemma digits10_digits: "c \<in> set (digits10 n) \<Longrightarrow> isRadixDigit 10 c"
proof (induction n arbitrary: c rule: digits10.induct)
  case (1 n)
  show ?case
  proof (cases "n < 10")
    case True
    with "1.prems" show ?thesis
      by (subst (asm) digits10.simps) (simp add: isRadixDigit_digitChar)
  next
    case False
    with "1.prems" have "c \<in> set (digits10 (n div 10)) \<or> c = digitChar (n mod 10)"
      by (subst (asm) digits10.simps) auto
    then show ?thesis
      using "1.IH" [OF False] by (auto simp: isRadixDigit_digitChar)
  qed
qed

lemma mathInt_snoc: "mathInt R (Z @ [c]) = mathInt R Z * int R + radixDigit c"
  by (simp add: mathInt_def)

lemma mathInt_digits10: "mathInt 10 (digits10 n) = int n"
proof (induction n rule: digits10.induct)
  case (1 n)
  show ?case
  proof (cases "n < 10")
    case True
    then show ?thesis
      by (subst digits10.simps) (simp add: mathInt_def radixDigit_digitChar)
  next
    case False
    have "int n = int (n div 10) * 10 + int (n mod 10)"
      by (metis mult.commute of_nat_add of_nat_mult of_nat_numeral div_mult_mod_eq mult.commute)
    then show ?thesis
      using "1.IH" [OF False] False
      by (subst digits10.simps) (simp add: mathInt_snoc radixDigit_digitChar)
  qed
qed

lemma digits10_not_Nil: "digits10 n \<noteq> []"
  by (subst digits10.simps) simp

lemma radix10_not_special:
  assumes "isRadixDigit 10 c"
  shows "\<not> isWhiteSpace c" and "c \<noteq> CHR ''+''" and "c \<noteq> CHR ''-''"
    and "c \<noteq> CHR ''x''" and "c \<noteq> CHR ''X''"
  using assms
  by (auto simp: isRadixDigit_def digitValue_def isWhiteSpace_def Let_def split: if_splits)

lemma takeWhile_digits10:
  assumes "endsNumeral suf"
  shows "takeWhile (isRadixDigit 10) (digits10 n @ suf) = digits10 n"
proof -
  have "takeWhile (isRadixDigit 10) suf = []"
    using assms by (cases suf) (simp_all add: endsNumeral_def)
  then show ?thesis
    by (simp add: digits10_digits)
qed

lemma not_hex_digits10:
  assumes "endsNumeral suf" and "digits10 n @ suf = a # b # r"
  shows "\<not> (a = CHR ''0'' \<and> (b = CHR ''x'' \<or> b = CHR ''X''))"
proof (cases "digits10 n")
  case Nil
  then show ?thesis using digits10_not_Nil by simp
next
  case (Cons d ds)
  show ?thesis
  proof (cases ds)
    case Nil
    with Cons assms have "suf = b # r" by simp
    with assms(1) show ?thesis by (simp add: endsNumeral_def)
  next
    case (Cons e es)
    with \<open>digits10 n = d # ds\<close> assms(2) have "b \<in> set (digits10 n)" by auto
    then show ?thesis using radix10_not_special digits10_digits by blast
  qed
qed

lemma parseInt_str_unsigned:
  assumes "endsNumeral suf"
  shows "parseInt_str (digits10 n @ suf) = Num (int n)"
proof -
  obtain d ds where dd: "digits10 n = d # ds"
    using digits10_not_Nil by (cases "digits10 n") auto
  then have d: "isRadixDigit 10 d"
    using digits10_digits [of d n] by simp
  have nohex: "\<not> (case (d # ds) @ suf of a # b # _ \<Rightarrow> a = CHR ''0'' \<and> (b = CHR ''x'' \<or> b = CHR ''X'') | _ \<Rightarrow> False)"
    using not_hex_digits10 [OF assms, of n] dd
    by (auto split: list.splits)
  have tw: "takeWhile (isRadixDigit 10) ((d # ds) @ suf) = d # ds"
    using takeWhile_digits10 [OF assms, of n] dd by simp
  show ?thesis
    using d nohex tw mathInt_digits10 [of n] radix10_not_special [OF d]
    unfolding parseInt_str_def dd
    by (simp add: Let_def)
qed

lemma parseInt_str_negative:
  assumes "endsNumeral suf"
  shows "parseInt_str (CHR ''-'' # digits10 n @ suf) = Num (- int n)"
proof -
  obtain d ds where dd: "digits10 n = d # ds"
    using digits10_not_Nil by (cases "digits10 n") auto
  then have d: "isRadixDigit 10 d"
    using digits10_digits [of d n] by simp
  have nohex: "\<not> (case (d # ds) @ suf of a # b # _ \<Rightarrow> a = CHR ''0'' \<and> (b = CHR ''x'' \<or> b = CHR ''X'') | _ \<Rightarrow> False)"
    using not_hex_digits10 [OF assms, of n] dd
    by (auto split: list.splits)
  have tw: "takeWhile (isRadixDigit 10) ((d # ds) @ suf) = d # ds"
    using takeWhile_digits10 [OF assms, of n] dd by simp
  have ws: "\<not> isWhiteSpace CHR ''-''"
    by (simp add: isWhiteSpace_def)
  show ?thesis
    using d nohex tw mathInt_digits10 [of n] ws
    unfolding parseInt_str_def dd
    by (simp add: Let_def)
qed

lemma parseInt_str_ToString:
  assumes "endsNumeral suf"
  shows "parseInt_str (ToString (Num i) @ suf) = Num i"
proof (cases "i < 0")
  case True
  then show ?thesis
    using parseInt_str_negative [OF assms, of "nat (- i)"] by (simp add: ToString_def)
next
  case False
  then show ?thesis
    using parseInt_str_unsigned [OF assms, of "nat i"] by (simp add: ToString_def)
qed

lemma parseInt_JNum: "parseInt (JNum (Num i)) = Num i"
  using parseInt_str_ToString [of "[]" i] by (simp add: parseInt_def endsNumeral_def)

lemma parseInt_JNum_NaN: "parseInt (JNum NaN) = NaN"
  by (simp add: parseInt_def ToString_def parseInt_str_def isWhiteSpace_def isRadixDigit_def digitValue_def)

lemma parseInt_fraction: "parseInt (JStr (ToString (Num i) @ CHR ''.'' # frac)) = Num i"
  using parseInt_str_ToString [of "CHR ''.'' # frac" i]
  by (simp add: parseInt_def endsNumeral_def isRadixDigit_def digitValue_def)

text \<open>
  Equations for running \<open>parseInt\<close> on a number without printing and reading back its
  digits, and the digit characters.
\<close>

lemma parseInt_code [code]:
  "parseInt (JNum (Num i)) = Num i"
  "parseInt (JNum NaN) = NaN"
  "parseInt (JStr s) = parseInt_str s"
  by (simp_all add: parseInt_JNum parseInt_JNum_NaN) (simp add: parseInt_def)



text \<open>Exponent notation is cut at the \<open>e\<close>; a hexadecimal prefix is honoured.\<close>

lemma parseInt_exponent: "parseInt (JStr ''1e3'') = Num 1"
  by code_simp

lemma parseInt_hex: "parseInt (JStr ''0x1F'') = Num 31"
  by code_simp

section \<open>composeTx and the change address\<close>


text \<open>
  C9. When \<open>changeAddrOverride\<close> is supplied (a non-empty address), \<open>composeTx\<close> leaves the
  wallet, and with it the change-address chain, as it was, whether it returns or throws;
  and its outcome is the same whatever \<open>next\<close> and \<open>reverse\<close> of the address manager do,
  so neither is called.
\<close>

theorem composeTx_override_frame:
  assumes "truthyStr (changeAddrOverride p)"
  shows "snd (composeTx env p w) = w \<and>
         composeTx (env\<lparr>am_next := nxt, am_reverse := rv\<rparr>) p w = composeTx env p w"
proof -
  obtain a where a: "changeAddrOverride p = Some a" "a \<noteq> []"
    using assms by (auto simp: truthyStr_def split: option.splits)
  have fa: "feeArg (env\<lparr>am_next := nxt, am_reverse := rv\<rparr>) p = feeArg env p"
    by (cases "fee p") (simp_all add: feeArg_def)
  have sel: "composeSelect (env\<lparr>am_next := nxt, am_reverse := rv\<rparr>) p w = composeSelect env p w"
    by (simp add: composeSelect_def fa Let_def cong: if_cong)
  have keys: "composePrivKeys (env\<lparr>am_next := nxt, am_reverse := rv\<rparr>) w us = composePrivKeys env w us" for us
    by (simp add: composePrivKeys_def)
  have asm: "composeAssemble (env\<lparr>am_next := nxt, am_reverse := rv\<rparr>) p us am ks c = composeAssemble env p us am ks c"
    for us am ks c
    by (simp add: composeAssemble_def fa cong: if_cong sum.case_cong)
  have unchanged: "snd (composeTx env p w) = w"
    using a by (simp add: composeTx_def truthyStr_def Let_def split: sum.splits prod.splits)
  have same: "composeTx (env\<lparr>am_next := nxt, am_reverse := rv\<rparr>) p w = composeTx env p w"
    using a by (simp add: composeTx_def sel keys asm fa truthyStr_def Let_def
        split: sum.splits prod.splits)
  show ?thesis using unchanged same by simp
qed

theorem composeTx_override_frame_witness:
  "truthyStr (changeAddrOverride simSendOverride) \<and>
   snd (composeTx simEnv simSendOverride simWallet) = simWallet \<and>
   composeTx (simEnv\<lparr>am_next := (\<lambda>c am. ([], am)), am_reverse := (\<lambda>c am. am)\<rparr>) simSendOverride simWallet
     = composeTx simEnv simSendOverride simWallet"
proof -
  have h: "truthyStr (changeAddrOverride simSendOverride)"
    by code_simp
  from composeTx_override_frame [OF h] show ?thesis using h by blast
qed

text \<open>
  C5. Without a change-address override: when UTXO selection throws, the wallet is left
  as it was (\<open>next\<close> was not reached); when selection succeeds and assembly or signing
  throws, the error propagates and the address manager is the one after one \<open>next\<close>
  followed by one \<open>reverse\<close> on the change chain.
\<close>

theorem composeTx_failure_reverses_change:
  assumes "\<not> truthyStr (changeAddrOverride p)"
  shows "(composeSelect env p w = Inl e \<longrightarrow> composeTx env p w = (Inl (Collaborator e), w)) \<and>
         (composeSelect env p w = Inr (us, ids, a) \<and>
          composeAssemble env p us a (composePrivKeys env w us) (fst (changeAddress_next env w)) = Inl e
            \<longrightarrow> composeTx env p w =
                  (Inl (Collaborator e), changeAddress_reverse env (snd (changeAddress_next env w))))"
proof -
  have nxt: "(case changeAddrOverride p of None \<Rightarrow> changeAddress_next env w
              | Some a \<Rightarrow> if a \<noteq> [] then (a, w) else changeAddress_next env w) = changeAddress_next env w"
    using assms by (auto simp: truthyStr_def split: option.splits)
  show ?thesis
    using assms unfolding composeTx_def nxt
    by (auto simp: Let_def split: prod.splits)
qed

theorem composeTx_failure_reverses_change_witness:
  "\<not> truthyStr (changeAddrOverride simSendNegative) \<and>
   composeSelect simEnv simSendNegative simWallet = Inr ([hd simUtxos], [''A0''], Num (- 5)) \<and>
   composeAssemble simEnv simSendNegative [hd simUtxos] (Num (- 5))
       (composePrivKeys simEnv simWallet [hd simUtxos]) (fst (changeAddress_next simEnv simWallet))
     = Inl ''invalid amounts'' \<and>
   composeTx simEnv simSendNegative simWallet =
     (Inl (Collaborator ''invalid amounts''),
      changeAddress_reverse simEnv (snd (changeAddress_next simEnv simWallet))) \<and>
   addressManager (changeAddress_reverse simEnv (snd (changeAddress_next simEnv simWallet))) = (0, 0)"
proof -
  have h: "\<not> truthyStr (changeAddrOverride simSendNegative)"
    by code_simp
  have s: "composeSelect simEnv simSendNegative simWallet = Inr ([hd simUtxos], [''A0''], Num (- 5))"
    by code_simp
  have a: "composeAssemble simEnv simSendNegative [hd simUtxos] (Num (- 5))
       (composePrivKeys simEnv simWallet [hd simUtxos]) (fst (changeAddress_next simEnv simWallet))
     = Inl ''invalid amounts''"
    by code_simp
  have c: "addressManager (changeAddress_reverse simEnv (snd (changeAddress_next simEnv simWallet))) = (0, 0)"
    by code_simp
  from composeTx_failure_reverses_change [OF h, of simEnv simWallet "''invalid amounts''"
      "[hd simUtxos]" "[''A0'']" "Num (- 5)"] s a
  have "composeTx simEnv simSendNegative simWallet =
     (Inl (Collaborator ''invalid amounts''),
      changeAddress_reverse simEnv (snd (changeAddress_next simEnv simWallet)))"
    by blast
  with h s a c show ?thesis by blast
qed

section \<open>composeTx and parseInt\<close>





section \<open>estimateTransaction: the fee covers the size\<close>








lemma feeOrZero_Num [simp]: "feeOrZero (Some (Num n)) = n"
  by (simp add: feeOrZero_def)

lemma estimateParams_sel [simp]:
  "fee (estimateParams p) = Some (Num (feeOrZero (fee p)))"
  "amount (estimateParams p) = amount p"
  "compoundingUTXO (estimateParams p) = compoundingUTXO p"
  "calculateNetworkFee (estimateParams p) = calculateNetworkFee p"
  "inclusiveFee (estimateParams p) = inclusiveFee p"
  "networkFeeMax (estimateParams p) = networkFeeMax p"
  "txNote (estimateParams p) = txNote p"
  "changeAddrOverride (estimateParams p) = changeAddrOverride p"
  "skipUTXOInUseMark (estimateParams p) = skipUTXOInUseMark p"
  by (simp_all add: estimateParams_def)

lemma estimateArg_sel [simp]:
  "fee (estimateArg p) = Some (Num (feeOrZero (fee p)))"
  "amount (estimateArg p) = amount p"
  "compoundingUTXO (estimateArg p) = compoundingUTXO p"
  "networkFeeMax (estimateArg p) = networkFeeMax p"
  "txNote (estimateArg p) = txNote p"
  by (simp_all add: estimateArg_def)



section \<open>What estimating and building leave untouched\<close>






section \<open>buildTransaction: the mass limit\<close>




section \<open>submitTransaction\<close>



section \<open>estimateTransaction without the network fee\<close>




section \<open>sync: the guard against a running continuous sync\<close>

text \<open>
  C8. Once the connect signal has resolved, \<open>sync\<close> throws "Wallet sync process already
  running." exactly when the wallet's \<open>syncOnce\<close> is \<open>false\<close> (a continuous sync is
  active) and the call asks for a one-shot sync, an omitted argument standing for the
  option \<open>syncOnce\<close>. A call that asks for a continuous sync never throws it.
\<close>

theorem sync_already_running:
  fixes env :: "('am, 'us, 'ts, 'tx) env" and w :: "('am, 'us, 'ts) Wallet"
  assumes "connectSignal w"
  shows "(\<exists>w'. sync env syncOnceArg w = Some (Inl SyncAlreadyRunning, w'))
           = (syncOnce w = Some False \<and> (case syncOnceArg of None \<Rightarrow> opt_syncOnce w | Some b \<Rightarrow> b))"
proof (cases "syncOnce w = Some False \<and> (case syncOnceArg of None \<Rightarrow> opt_syncOnce w | Some b \<Rightarrow> b)")
  case True
  then show ?thesis
    using assms by (cases syncOnceArg) (simp_all add: sync_def Let_def emit_def)
next
  case False
  have "sync env syncOnceArg w \<noteq> Some (Inl SyncAlreadyRunning, w')" for w'
    using assms False
    by (cases syncOnceArg)
      (auto simp: sync_def Let_def emit_def
        split: option.splits sum.splits prod.splits if_splits)
  with False show ?thesis by blast
qed

theorem sync_already_running_witness:
  "connectSignal simWalletContinuous \<and> syncOnce simWalletContinuous = Some False \<and>
   (\<exists>w'. sync simEnv (Some True) simWalletContinuous = Some (Inl SyncAlreadyRunning, w')) \<and>
   \<not> (\<exists>w'. sync simEnv (Some False) simWalletContinuous = Some (Inl SyncAlreadyRunning, w')) \<and>
   \<not> (\<exists>w'. sync simEnv (Some True) simWallet = Some (Inl SyncAlreadyRunning, w'))"
proof -
  have h: "connectSignal simWalletContinuous" by code_simp
  have h0: "connectSignal simWallet" by code_simp
  have s: "syncOnce simWalletContinuous = Some False" by code_simp
  have s0: "syncOnce simWallet = None" by code_simp
  from sync_already_running [OF h, of simEnv "Some True"] s
  have a: "\<exists>w'. sync simEnv (Some True) simWalletContinuous = Some (Inl SyncAlreadyRunning, w')"
    by simp
  from sync_already_running [OF h, of simEnv "Some False"]
  have b: "\<not> (\<exists>w'. sync simEnv (Some False) simWalletContinuous = Some (Inl SyncAlreadyRunning, w'))"
    by simp
  from sync_already_running [OF h0, of simEnv "Some True"] s0
  have c: "\<not> (\<exists>w'. sync simEnv (Some True) simWallet = Some (Inl SyncAlreadyRunning, w'))"
    by simp
  from h s a b c show ?thesis by blast
qed

section \<open>createUID: the path and the hashed string\<close>

lemma splitOn_prefix:
  "sep \<notin> set pre \<Longrightarrow> splitOn sep (pre @ sep # rest) = pre # splitOn sep rest"
proof (induction pre)
  case Nil
  then show ?case by simp
next
  case (Cons c pre)
  then show ?case by auto
qed

lemma splitOn_no_sep: "sep \<notin> set s \<Longrightarrow> splitOn sep s = [s]"
proof (induction s)
  case Nil
  then show ?case by simp
next
  case (Cons c s)
  then show ?case by auto
qed

text \<open>
  C2, amended. \<open>createUID\<close> derives the child key at the path \<open>m/44'/972/0'/1'/0'\<close>, whose
  coin-type component 972 is not hardened, converts it to an address on the wallet's
  network and, the address being a prefix, a colon and a payload, returns the hash of the
  payload. The uid is a function of the HD root and of the network alone.
\<close>

theorem createUID_payload:
  assumes "CHR '':'' \<notin> set prefix" and "CHR '':'' \<notin> set payload"
    and "toAddress lib (deriveChild lib root uidPath) net = prefix @ CHR '':'' # payload"
  shows "createUID lib root net = createHash lib (Some payload)"
proof -
  have "splitOn CHR '':'' (prefix @ CHR '':'' # payload) = [prefix, payload]"
    using assms(1,2) by (simp add: splitOn_prefix splitOn_no_sep)
  then show ?thesis
    using assms(3) by (simp add: createUID_def at_def Let_def)
qed

theorem createUID_payload_witness:
  "CHR '':'' \<notin> set ''kaspatest'' \<and> CHR '':'' \<notin> set (''seed'' @ uidPath) \<and>
   toAddress simKeylib (deriveChild simKeylib ''seed'' uidPath) ''kaspatest''
     = ''kaspatest'' @ CHR '':'' # (''seed'' @ uidPath) \<and>
   createUID simKeylib ''seed'' ''kaspatest'' = createHash simKeylib (Some (''seed'' @ uidPath)) \<and>
   createUID simKeylib ''seed'' ''kaspatest'' = ''seedm/44'/972/0'/1'/0'' @ [CHR 0x27]"
proof -
  have h1: "CHR '':'' \<notin> set ''kaspatest''" by code_simp
  have h2: "CHR '':'' \<notin> set (''seed'' @ uidPath)" by code_simp
  have h3: "toAddress simKeylib (deriveChild simKeylib ''seed'' uidPath) ''kaspatest''
     = ''kaspatest'' @ CHR '':'' # (''seed'' @ uidPath)"
    by code_simp
  have v: "createHash simKeylib (Some (''seed'' @ uidPath)) = ''seedm/44'/972/0'/1'/0'' @ [CHR 0x27]"
    by code_simp
  from createUID_payload [OF h1 h2 h3] v h1 h2 h3 show ?thesis by simp
qed

text \<open>
  With a key library whose derived key records the path, the uid of the source differs
  from the uid derived at \<open>m/44'/972'/0'/1'/0'\<close>.
\<close>

theorem createUID_path_counterexample:
  "createUID simKeylib ''seed'' ''kaspatest'' \<noteq> createUID_spec simKeylib ''seed'' ''kaspatest''"
  by code_simp

section \<open>Address discovery: a window without UTXOs\<close>

declare doDiscovery.simps [code]








end
